theory Spec2Isabelle
  imports Complex_Main "HOL-Library.Log_Nat"
begin

section \<open>Python values\<close>

text \<open>
  The analysis functions of \<^verbatim>\<open>analyze_books.py\<close> work on records as \<^verbatim>\<open>json\<close> or
  \<^verbatim>\<open>csv.DictReader\<close> deliver them: dictionaries with string keys whose values are
  \<^verbatim>\<open>None\<close>, booleans, integers of any size, floats, strings, lists and dictionaries.
  A Python string is a sequence of Unicode code points, modelled as a list of naturals;
  \<open>ustr\<close> turns an ASCII literal into one.
\<close>

type_synonym pystr = "nat list"

definition ustr :: "string \<Rightarrow> pystr" where
  "ustr cs = map of_char cs"

text \<open>
  A float is an IEEE 754 binary64 value: a finite number (kept as the rational it
  denotes), the negative zero, the two infinities, or a NaN.
\<close>

datatype pyfloat = Fin rat | NegZero | PInf | NInf | NaN

datatype pyval =
    VNone
  | VBool bool
  | VInt int
  | VFloat pyfloat
  | VStr pystr
  | VList "pyval list"
  | VTuple "pyval list"
  | VDict "(pystr \<times> pyval) list"

type_synonym pydict = "(pystr \<times> pyval) list"

datatype pyexn =
    OverflowError
  | IndexError
  | KeyError
  | TypeError
  | ValueError
  | JSONDecodeError
  | RecursionError

text \<open>\<^verbatim>\<open>it.get(key)\<close>: the value stored under the key, \<^verbatim>\<open>None\<close> when there is none.\<close>

definition dict_get :: "pydict \<Rightarrow> pystr \<Rightarrow> pyval" where
  "dict_get it key = (case map_of it key of None \<Rightarrow> VNone | Some v \<Rightarrow> v)"

text \<open>Truth value testing, as \<^verbatim>\<open>or\<close> and \<^verbatim>\<open>if parsed:\<close> use it.\<close>

fun truthy :: "pyval \<Rightarrow> bool" where
  "truthy VNone = False"
| "truthy (VBool b) = b"
| "truthy (VInt n) = (n \<noteq> 0)"
| "truthy (VFloat f) = (f \<noteq> Fin 0 \<and> f \<noteq> NegZero)"
| "truthy (VStr s) = (s \<noteq> [])"
| "truthy (VList xs) = (xs \<noteq> [])"
| "truthy (VTuple xs) = (xs \<noteq> [])"
| "truthy (VDict kvs) = (kvs \<noteq> [])"

text \<open>\<^verbatim>\<open>a or b\<close> is \<^verbatim>\<open>a\<close> when \<^verbatim>\<open>a\<close> is true, and \<^verbatim>\<open>b\<close> otherwise.\<close>

definition py_or :: "pyval \<Rightarrow> pyval \<Rightarrow> pyval" where
  "py_or a b = (if truthy a then a else b)"

text \<open>
  \<^verbatim>\<open>x[0]\<close>: the first element of a list or tuple and the first character of a string,
  \<^verbatim>\<open>IndexError\<close> when they are empty; a dictionary with string keys has no key \<^verbatim>\<open>0\<close>;
  the other values cannot be subscripted.
\<close>

fun subscript0 :: "pyval \<Rightarrow> pyexn + pyval" where
  "subscript0 (VList []) = Inl IndexError"
| "subscript0 (VList (x # xs)) = Inr x"
| "subscript0 (VTuple []) = Inl IndexError"
| "subscript0 (VTuple (x # xs)) = Inr x"
| "subscript0 (VStr []) = Inl IndexError"
| "subscript0 (VStr (c # cs)) = Inr (VStr [c])"
| "subscript0 (VDict kvs) = Inl KeyError"
| "subscript0 v = Inl TypeError"

fun is_list_or_tuple :: "pyval \<Rightarrow> bool" where
  "is_list_or_tuple (VList xs) = True"
| "is_list_or_tuple (VTuple xs) = True"
| "is_list_or_tuple v = False"

section \<open>Float comparison\<close>

text \<open>
  IEEE comparison: a NaN compares false with everything, the two zeros are equal, the
  infinities lie outside all finite values.
\<close>

fun float_rank :: "pyfloat \<Rightarrow> int" where
  "float_rank NInf = -1"
| "float_rank PInf = 1"
| "float_rank f = 0"

fun float_val :: "pyfloat \<Rightarrow> rat" where
  "float_val (Fin r) = r"
| "float_val f = 0"

definition float_le :: "pyfloat \<Rightarrow> pyfloat \<Rightarrow> bool" where
  "float_le a b \<longleftrightarrow> a \<noteq> NaN \<and> b \<noteq> NaN \<and>
     (float_rank a < float_rank b \<or> (float_rank a = float_rank b \<and> float_val a \<le> float_val b))"

definition float_gt :: "pyfloat \<Rightarrow> pyfloat \<Rightarrow> bool" where
  "float_gt a b \<longleftrightarrow> a \<noteq> NaN \<and> b \<noteq> NaN \<and>
     (float_rank b < float_rank a \<or> (float_rank a = float_rank b \<and> float_val b < float_val a))"

section \<open>String methods\<close>

text \<open>
  \<^verbatim>\<open>str.strip()\<close> removes the leading and trailing characters for which
  \<^verbatim>\<open>str.isspace()\<close> holds: the ASCII white space and separators, NEL, the no-break space
  and the Unicode space separators.
\<close>

definition py_isspace :: "nat \<Rightarrow> bool" where
  "py_isspace c \<longleftrightarrow>
     (9 \<le> c \<and> c \<le> 13) \<or> (28 \<le> c \<and> c \<le> 32) \<or> c = 133 \<or> c = 160 \<or> c = 5760 \<or>
     (8192 \<le> c \<and> c \<le> 8202) \<or> c = 8232 \<or> c = 8233 \<or> c = 8239 \<or> c = 8287 \<or> c = 12288"

definition strip :: "pystr \<Rightarrow> pystr" where
  "strip s = rev (dropWhile py_isspace (rev (dropWhile py_isspace s)))"

definition startswith :: "pystr \<Rightarrow> pystr \<Rightarrow> bool" where
  "startswith s p = (take (length p) s = p)"

definition endswith :: "pystr \<Rightarrow> pystr \<Rightarrow> bool" where
  "endswith s p = (length p \<le> length s \<and> drop (length s - length p) s = p)"

text \<open>\<^verbatim>\<open>s[1:-1]\<close> drops the first and the last character (and is empty on a short string).\<close>

definition slice_1_m1 :: "pystr \<Rightarrow> pystr" where
  "slice_1_m1 s = butlast (tl s)"

text \<open>\<^verbatim>\<open>s.replace(c, '')\<close> for a one-character \<^verbatim>\<open>c\<close> removes every occurrence of it.\<close>

definition remove_char :: "nat \<Rightarrow> pystr \<Rightarrow> pystr" where
  "remove_char c s = filter (\<lambda>x. x \<noteq> c) s"

definition pound_sign :: nat where
  "pound_sign = 163"

section \<open>The library the functions call\<close>

text \<open>
  The functions rely on the interpreter and its standard library for the conversions
  \<^verbatim>\<open>float(str)\<close> and \<^verbatim>\<open>float(int)\<close>, for \<^verbatim>\<open>json.loads\<close>, for the Unicode case mapping
  \<^verbatim>\<open>str.lower()\<close>, and for the float arithmetic of \<^verbatim>\<open>sum(prices) / len(prices)\<close>
  (whose rounding differs between interpreter versions). They are parameters of the
  model, so that what is proved for every library holds for the real one.
  \<open>recursion_budget\<close> is how many nested calls of \<^verbatim>\<open>normalize_price\<close> the recursion
  limit of the interpreter leaves room for when an analysis function calls it.
\<close>

record pylib =
  str_lower :: "pystr \<Rightarrow> pystr"
  float_of_str :: "pystr \<Rightarrow> pyexn + pyfloat"
  float_of_int :: "int \<Rightarrow> pyexn + pyfloat"
  json_loads :: "pystr \<Rightarrow> pyexn + pyval"
  float_sum :: "pyfloat list \<Rightarrow> pyfloat"
  float_div_int :: "pyfloat \<Rightarrow> nat \<Rightarrow> pyfloat"
  recursion_budget :: nat

section \<open>A reference library\<close>

text \<open>
  For evaluating the functions on concrete inputs, the library functions are also given
  as definitions, following the documentation of the interpreter. Where they fall short
  of it, the text says so; the general theorems do not depend on them.
\<close>

subsection \<open>Rounding to binary64\<close>

definition pow_int :: "rat \<Rightarrow> int \<Rightarrow> rat" where
  "pow_int b k = (if 0 \<le> k then b ^ nat k else 1 / b ^ nat (- k))"

text \<open>
  For \<open>x > 0\<close>, the exponent \<open>e\<close> with \<open>2 ^ e \<le> x < 2 ^ (e + 1)\<close>: one less than the
  bit length of the integer part from \<open>1\<close> on, and below \<open>1\<close> the negated bit length of
  the predecessor of the reciprocal rounded up.
\<close>

definition floor_log2 :: "rat \<Rightarrow> int" where
  "floor_log2 x = (if 1 \<le> x then bitlen \<lfloor>x\<rfloor> - 1 else - bitlen (\<lceil>1 / x\<rceil> - 1))"

definition round_half_even :: "rat \<Rightarrow> int" where
  "round_half_even x =
     (let n = \<lfloor>x\<rfloor>; r = x - of_int n
      in if r < 1 / 2 then n
         else if 1 / 2 < r then n + 1
         else if even n then n else n + 1)"

text \<open>
  The binary64 value nearest to a rational, ties to even: 53 significant bits, smallest
  normal exponent \<open>-1022\<close>, overflow to an infinity from \<open>2 ^ 1024\<close> on.
\<close>

definition to_double :: "rat \<Rightarrow> pyfloat" where
  "to_double x =
     (if x = 0 then Fin 0
      else
        let a = \<bar>x\<bar>;
            e = max (floor_log2 a) (- 1022);
            ulp = pow_int 2 (e - 52);
            m = of_int (round_half_even (a / ulp)) * ulp
        in if pow_int 2 1024 \<le> m then (if x < 0 then NInf else PInf)
           else if m = 0 then (if x < 0 then NegZero else Fin 0)
           else Fin (if x < 0 then - m else m))"

fun float_neg :: "pyfloat \<Rightarrow> pyfloat" where
  "float_neg (Fin r) = (if r = 0 then NegZero else Fin (- r))"
| "float_neg NegZero = Fin 0"
| "float_neg PInf = NInf"
| "float_neg NInf = PInf"
| "float_neg NaN = NaN"

text \<open>
  \<^verbatim>\<open>float(n)\<close> for an integer: the nearest float, and \<^verbatim>\<open>OverflowError\<close> when the integer
  is too large for one.
\<close>

definition py_float_of_int :: "int \<Rightarrow> pyexn + pyfloat" where
  "py_float_of_int n =
     (case to_double (of_int n) of
        PInf \<Rightarrow> Inl OverflowError
      | NInf \<Rightarrow> Inl OverflowError
      | f \<Rightarrow> Inr f)"

subsection \<open>The case mapping\<close>

text \<open>
  \<^verbatim>\<open>str.lower()\<close> on ASCII letters. The case mapping of the other code points needs the
  Unicode tables and is left out: they are kept as they are.
\<close>

definition ascii_lower :: "pystr \<Rightarrow> pystr" where
  "ascii_lower s = map (\<lambda>c. if 65 \<le> c \<and> c \<le> 90 then c + 32 else c) s"

subsection \<open>Float from a string\<close>

definition is_digit :: "nat \<Rightarrow> bool" where
  "is_digit c \<longleftrightarrow> 48 \<le> c \<and> c \<le> 57"

definition digits_value :: "pystr \<Rightarrow> nat" where
  "digits_value ds = foldl (\<lambda>a c. 10 * a + (c - 48)) 0 ds"

text \<open>
  \<^verbatim>\<open>float\<close> strips the ASCII white space and the white space outside ASCII (not the
  separators \<^verbatim>\<open>\x1c\<close> to \<^verbatim>\<open>\x1f\<close>).
\<close>

definition float_isspace :: "nat \<Rightarrow> bool" where
  "float_isspace c \<longleftrightarrow> (9 \<le> c \<and> c \<le> 13) \<or> c = 32 \<or> (127 \<le> c \<and> py_isspace c)"

definition float_strip :: "pystr \<Rightarrow> pystr" where
  "float_strip s = rev (dropWhile float_isspace (rev (dropWhile float_isspace s)))"

text \<open>An underscore is allowed between two digits only; \<open>prev\<close> is the character before.\<close>

fun underscores_ok :: "nat \<Rightarrow> pystr \<Rightarrow> bool" where
  "underscores_ok prev [] = (prev \<noteq> 95)"
| "underscores_ok prev (c # cs) =
     ((if c = 95 then is_digit prev else if prev = 95 then is_digit c else True)
      \<and> underscores_ok c cs)"

text \<open>The exponent part: nothing, or \<^verbatim>\<open>e\<close>, an optional sign and digits.\<close>

definition parse_exponent :: "pystr \<Rightarrow> int option" where
  "parse_exponent s =
     (case s of
        [] \<Rightarrow> Some 0
      | c # r \<Rightarrow>
          if c = 101 \<or> c = 69 then
            (let (neg, ds) =
                   (case r of
                      [] \<Rightarrow> (False, [])
                    | g # r' \<Rightarrow> if g = 45 then (True, r') else if g = 43 then (False, r') else (False, r))
             in if ds = [] \<or> dropWhile is_digit ds \<noteq> [] then None
                else Some (if neg then - int (digits_value ds) else int (digits_value ds)))
          else None)"

text \<open>
  An unsigned decimal: digits, an optional point and digits (with a digit on one side at
  least), an optional exponent.
\<close>

definition parse_decimal :: "pystr \<Rightarrow> rat option" where
  "parse_decimal s =
     (let ip = takeWhile is_digit s;
          r1 = dropWhile is_digit s;
          (fp, r2) =
            (case r1 of
               [] \<Rightarrow> ([], [])
             | c # r \<Rightarrow> if c = 46 then (takeWhile is_digit r, dropWhile is_digit r) else ([], r1))
      in if ip = [] \<and> fp = [] then None
         else
           (case parse_exponent r2 of
              None \<Rightarrow> None
            | Some ex \<Rightarrow> Some (of_nat (digits_value (ip @ fp)) * pow_int 10 (ex - int (length fp)))))"

text \<open>
  \<^verbatim>\<open>float(s)\<close> for a string: \<^verbatim>\<open>ValueError\<close> unless the stripped string is a signed
  decimal, \<^verbatim>\<open>inf\<close>, \<^verbatim>\<open>infinity\<close> or \<^verbatim>\<open>nan\<close> in any case. The decimal digits outside
  ASCII, which the interpreter accepts as well, are not covered: they are rejected here.
\<close>

definition py_float_of_str :: "pystr \<Rightarrow> pyexn + pyfloat" where
  "py_float_of_str s =
     (let t = float_strip s
      in if \<not> underscores_ok 0 t then Inl ValueError
         else
           let u = remove_char 95 t;
               (neg, body) =
                 (case u of
                    [] \<Rightarrow> (False, [])
                  | c # r \<Rightarrow> if c = 45 then (True, r) else if c = 43 then (False, r) else (False, u));
               lo = ascii_lower body
           in if lo = ustr ''inf'' \<or> lo = ustr ''infinity'' then Inr (if neg then NInf else PInf)
              else if lo = ustr ''nan'' then Inr NaN
              else
                (case parse_decimal body of
                   None \<Rightarrow> Inl ValueError
                 | Some q \<Rightarrow> Inr (if neg then float_neg (to_double q) else to_double q)))"

subsection \<open>Float arithmetic\<close>

text \<open>
  \<^verbatim>\<open>sum(prices)\<close> adds from the left, starting from zero, each addition rounded
  (interpreters from version 3.12 on add a compensation term, which is zero as long as
  every partial sum is exact); \<^verbatim>\<open>x / n\<close> divides by the float of the length, which is
  positive where the functions divide.
\<close>

fun float_add :: "pyfloat \<Rightarrow> pyfloat \<Rightarrow> pyfloat" where
  "float_add NaN b = NaN"
| "float_add a NaN = NaN"
| "float_add PInf b = (if b = NInf then NaN else PInf)"
| "float_add NInf b = (if b = PInf then NaN else NInf)"
| "float_add a PInf = PInf"
| "float_add a NInf = NInf"
| "float_add NegZero NegZero = NegZero"
| "float_add a b = to_double (float_val a + float_val b)"

definition py_float_sum :: "pyfloat list \<Rightarrow> pyfloat" where
  "py_float_sum prices = foldl float_add (Fin 0) prices"

definition py_float_div_int :: "pyfloat \<Rightarrow> nat \<Rightarrow> pyfloat" where
  "py_float_div_int x n =
     (case x of
        Fin r \<Rightarrow> to_double (r / float_val (to_double (of_nat n)))
      | f \<Rightarrow> f)"

subsection \<open>JSON decoding\<close>

text \<open>
  \<^verbatim>\<open>json.loads\<close> with its default settings, as a scanner that reads the characters one by
  one and a parser that reads the tokens one by one with a stack of the open arrays and
  objects. Every failure is a \<^verbatim>\<open>JSONDecodeError\<close>. Two limits of the interpreter are not
  covered: the \<^verbatim>\<open>RecursionError\<close> of a very deep nesting, and the \<^verbatim>\<open>ValueError\<close> that
  recent versions raise on an integer of several thousand digits.
\<close>

datatype json_token =
    TValue pyval
  | TLBracket
  | TRBracket
  | TLBrace
  | TRBrace
  | TComma
  | TColon

text \<open>
  The scanner is between tokens, inside a number or literal, inside a string, after a
  backslash, or inside the four hexadecimal digits of a \<^verbatim>\<open>\u\<close> escape. The flag of the
  string states tells that the last character is a high surrogate written as an escape,
  which a following escaped low surrogate completes to one code point.
\<close>

datatype lex_state =
    LStart
  | LWord pystr
  | LString pystr bool
  | LEscape pystr bool
  | LHex pystr bool "nat list"

definition is_word_char :: "nat \<Rightarrow> bool" where
  "is_word_char c \<longleftrightarrow>
     is_digit c \<or> (65 \<le> c \<and> c \<le> 90) \<or> (97 \<le> c \<and> c \<le> 122) \<or> c = 43 \<or> c = 45 \<or> c = 46"

text \<open>
  A number is \<^verbatim>\<open>-?(0|[1-9][0-9]*)(\.[0-9]+)?([eE][-+]?[0-9]+)?\<close>: an \<^verbatim>\<open>int\<close> without
  fraction and exponent, and the \<^verbatim>\<open>float\<close> of its text otherwise.
\<close>

definition parse_json_number :: "pystr \<Rightarrow> pyexn + pyval" where
  "parse_json_number w =
     (let (neg, r) =
            (case w of
               [] \<Rightarrow> (False, [])
             | c # r' \<Rightarrow> if c = 45 then (True, r') else (False, w));
          ip = takeWhile is_digit r;
          r1 = dropWhile is_digit r
      in case ip of
           [] \<Rightarrow> Inl JSONDecodeError
         | d # ds \<Rightarrow>
             if d = 48 \<and> ds \<noteq> [] then Inl JSONDecodeError
             else if r1 = [] then
               Inr (VInt (if neg then - int (digits_value ip) else int (digits_value ip)))
             else
               let (frac_ok, r2) =
                     (case r1 of
                        [] \<Rightarrow> (True, [])
                      | c # r' \<Rightarrow>
                          if c = 46 then (takeWhile is_digit r' \<noteq> [], dropWhile is_digit r')
                          else (True, r1))
               in if frac_ok \<and> parse_exponent r2 \<noteq> None then
                    (case py_float_of_str w of
                       Inl e \<Rightarrow> Inl JSONDecodeError
                     | Inr f \<Rightarrow> Inr (VFloat f))
                  else Inl JSONDecodeError)"

definition scalar_of_word :: "pystr \<Rightarrow> pyexn + pyval" where
  "scalar_of_word w =
     (if w = ustr ''null'' then Inr VNone
      else if w = ustr ''true'' then Inr (VBool True)
      else if w = ustr ''false'' then Inr (VBool False)
      else if w = ustr ''NaN'' then Inr (VFloat NaN)
      else if w = ustr ''Infinity'' then Inr (VFloat PInf)
      else if w = ustr ''-Infinity'' then Inr (VFloat NInf)
      else parse_json_number w)"

text \<open>A character between tokens: white space, punctuation, or the start of a token.\<close>

definition lex_start :: "nat \<Rightarrow> pyexn + (json_token list \<times> lex_state)" where
  "lex_start c =
     (if c = 32 \<or> c = 9 \<or> c = 10 \<or> c = 13 then Inr ([], LStart)
      else if c = 91 then Inr ([TLBracket], LStart)
      else if c = 93 then Inr ([TRBracket], LStart)
      else if c = 123 then Inr ([TLBrace], LStart)
      else if c = 125 then Inr ([TRBrace], LStart)
      else if c = 44 then Inr ([TComma], LStart)
      else if c = 58 then Inr ([TColon], LStart)
      else if c = 34 then Inr ([], LString [] False)
      else if is_word_char c then Inr ([], LWord [c])
      else Inl JSONDecodeError)"

definition is_hex_digit :: "nat \<Rightarrow> bool" where
  "is_hex_digit c \<longleftrightarrow> is_digit c \<or> (65 \<le> c \<and> c \<le> 70) \<or> (97 \<le> c \<and> c \<le> 102)"

definition hex_digit_value :: "nat \<Rightarrow> nat" where
  "hex_digit_value c = (if is_digit c then c - 48 else if c \<le> 70 then c - 55 else c - 87)"

definition is_high_surrogate :: "nat \<Rightarrow> bool" where
  "is_high_surrogate u \<longleftrightarrow> 55296 \<le> u \<and> u \<le> 56319"

definition is_low_surrogate :: "nat \<Rightarrow> bool" where
  "is_low_surrogate u \<longleftrightarrow> 56320 \<le> u \<and> u \<le> 57343"

text \<open>The string after the fourth digit of a \<^verbatim>\<open>\u\<close> escape for the code unit \<open>u\<close>.\<close>

definition append_code_unit :: "pystr \<Rightarrow> bool \<Rightarrow> nat \<Rightarrow> lex_state" where
  "append_code_unit acc hi u =
     (if hi \<and> is_low_surrogate u \<and> acc \<noteq> [] then
        LString (butlast acc @ [65536 + (last acc - 55296) * 1024 + (u - 56320)]) False
      else LString (acc @ [u]) (is_high_surrogate u))"

definition escaped_char :: "nat \<Rightarrow> nat option" where
  "escaped_char c =
     (if c = 34 \<or> c = 92 \<or> c = 47 then Some c
      else if c = 98 then Some 8
      else if c = 102 then Some 12
      else if c = 110 then Some 10
      else if c = 114 then Some 13
      else if c = 116 then Some 9
      else None)"

definition emit :: "json_token list \<Rightarrow> pyexn + json_token list \<Rightarrow> pyexn + json_token list" where
  "emit ts r = (case r of Inl e \<Rightarrow> Inl e | Inr ts' \<Rightarrow> Inr (ts @ ts'))"

fun json_lex :: "lex_state \<Rightarrow> pystr \<Rightarrow> pyexn + json_token list" where
  "json_lex st [] =
     (case st of
        LStart \<Rightarrow> Inr []
      | LWord w \<Rightarrow> (case scalar_of_word w of Inl e \<Rightarrow> Inl e | Inr v \<Rightarrow> Inr [TValue v])
      | _ \<Rightarrow> Inl JSONDecodeError)"
| "json_lex st (c # cs) =
     (case st of
        LStart \<Rightarrow>
          (case lex_start c of
             Inl e \<Rightarrow> Inl e
           | Inr (ts, st') \<Rightarrow> emit ts (json_lex st' cs))
      | LWord w \<Rightarrow>
          if is_word_char c then json_lex (LWord (w @ [c])) cs
          else
            (case scalar_of_word w of
               Inl e \<Rightarrow> Inl e
             | Inr v \<Rightarrow>
                 (case lex_start c of
                    Inl e \<Rightarrow> Inl e
                  | Inr (ts, st') \<Rightarrow> emit (TValue v # ts) (json_lex st' cs)))
      | LString acc hi \<Rightarrow>
          if c = 34 then emit [TValue (VStr acc)] (json_lex LStart cs)
          else if c = 92 then json_lex (LEscape acc hi) cs
          else if c < 32 then Inl JSONDecodeError
          else json_lex (LString (acc @ [c]) False) cs
      | LEscape acc hi \<Rightarrow>
          if c = 117 then json_lex (LHex acc hi []) cs
          else
            (case escaped_char c of
               None \<Rightarrow> Inl JSONDecodeError
             | Some x \<Rightarrow> json_lex (LString (acc @ [x]) False) cs)
      | LHex acc hi ds \<Rightarrow>
          if is_hex_digit c then
            (let ds' = ds @ [hex_digit_value c]
             in if length ds' = 4 then
                  json_lex (append_code_unit acc hi (foldl (\<lambda>a d. 16 * a + d) 0 ds')) cs
                else json_lex (LHex acc hi ds') cs)
          else Inl JSONDecodeError)"

text \<open>
  The parser: the stack of open containers (an array with its elements so far, an object
  with its entries so far and the key that waits for its value) and what may come next.
  A key that occurs again replaces the value of its entry.
\<close>

datatype json_frame = FArray "pyval list" | FObject pydict "pystr option"

datatype parse_state =
    ExpectValue
  | ExpectValueOrEnd
  | ExpectKeyOrEnd
  | ExpectKey
  | ExpectColon
  | AfterValue
  | Done pyval

fun dict_set :: "pydict \<Rightarrow> pystr \<Rightarrow> pyval \<Rightarrow> pydict" where
  "dict_set [] k v = [(k, v)]"
| "dict_set ((k', v') # kvs) k v =
     (if k' = k then (k, v) # kvs else (k', v') # dict_set kvs k v)"

fun deliver :: "pyval \<Rightarrow> json_frame list \<Rightarrow> pyexn + (json_frame list \<times> parse_state)" where
  "deliver v [] = Inr ([], Done v)"
| "deliver v (FArray es # fs) = Inr (FArray (es @ [v]) # fs, AfterValue)"
| "deliver v (FObject kvs (Some k) # fs) = Inr (FObject (dict_set kvs k v) None # fs, AfterValue)"
| "deliver v (FObject kvs None # fs) = Inl JSONDecodeError"

definition open_value :: "json_frame list \<Rightarrow> json_token \<Rightarrow> pyexn + (json_frame list \<times> parse_state)" where
  "open_value fs t =
     (case t of
        TValue v \<Rightarrow> deliver v fs
      | TLBracket \<Rightarrow> Inr (FArray [] # fs, ExpectValueOrEnd)
      | TLBrace \<Rightarrow> Inr (FObject [] None # fs, ExpectKeyOrEnd)
      | _ \<Rightarrow> Inl JSONDecodeError)"

definition take_key :: "json_frame list \<Rightarrow> json_token \<Rightarrow> pyexn + (json_frame list \<times> parse_state)" where
  "take_key fs t =
     (case (fs, t) of
        (FObject kvs None # fs', TValue (VStr k)) \<Rightarrow> Inr (FObject kvs (Some k) # fs', ExpectColon)
      | _ \<Rightarrow> Inl JSONDecodeError)"

definition close_container :: "json_frame list \<Rightarrow> json_token \<Rightarrow> pyexn + (json_frame list \<times> parse_state)" where
  "close_container fs t =
     (case (fs, t) of
        (FArray es # fs', TRBracket) \<Rightarrow> deliver (VList es) fs'
      | (FObject kvs None # fs', TRBrace) \<Rightarrow> deliver (VDict kvs) fs'
      | _ \<Rightarrow> Inl JSONDecodeError)"

definition json_step ::
  "json_frame list \<times> parse_state \<Rightarrow> json_token \<Rightarrow> pyexn + (json_frame list \<times> parse_state)" where
  "json_step cfg t =
     (case cfg of (fs, ps) \<Rightarrow>
        (case ps of
           ExpectValue \<Rightarrow> open_value fs t
         | ExpectValueOrEnd \<Rightarrow> if t = TRBracket then close_container fs t else open_value fs t
         | ExpectKeyOrEnd \<Rightarrow> if t = TRBrace then close_container fs t else take_key fs t
         | ExpectKey \<Rightarrow> take_key fs t
         | ExpectColon \<Rightarrow> if t = TColon then Inr (fs, ExpectValue) else Inl JSONDecodeError
         | AfterValue \<Rightarrow>
             if t = TComma then
               (case fs of
                  FArray es # fs' \<Rightarrow> Inr (fs, ExpectValue)
                | FObject kvs k # fs' \<Rightarrow> Inr (fs, ExpectKey)
                | [] \<Rightarrow> Inl JSONDecodeError)
             else close_container fs t
         | Done v \<Rightarrow> Inl JSONDecodeError))"

fun json_run :: "json_frame list \<times> parse_state \<Rightarrow> json_token list \<Rightarrow> pyexn + pyval" where
  "json_run cfg [] = (case snd cfg of Done v \<Rightarrow> Inr v | _ \<Rightarrow> Inl JSONDecodeError)"
| "json_run cfg (t # ts) =
     (case json_step cfg t of Inl e \<Rightarrow> Inl e | Inr cfg' \<Rightarrow> json_run cfg' ts)"

definition py_json_loads :: "pystr \<Rightarrow> pyexn + pyval" where
  "py_json_loads s =
     (case json_lex LStart s of
        Inl e \<Rightarrow> Inl e
      | Inr ts \<Rightarrow> json_run ([], ExpectValue) ts)"

subsection \<open>The library as a whole\<close>

text \<open>
  The recursion budget is the default recursion limit of the interpreter, a bound on what
  remains of it inside an analysis function.
\<close>

definition stdlib :: pylib where
  "stdlib =
     \<lparr>str_lower = ascii_lower,
      float_of_str = py_float_of_str,
      float_of_int = py_float_of_int,
      json_loads = py_json_loads,
      float_sum = py_float_sum,
      float_div_int = py_float_div_int,
      recursion_budget = 1000\<rparr>"

section \<open>The built-in conversion of numbers\<close>

text \<open>
  \<^verbatim>\<open>isinstance(value, (int, float))\<close> holds for the integers, the booleans (a subclass of
  the integers) and the floats. On these, \<^verbatim>\<open>float(value)\<close> is the value itself for a
  float and the conversion of the library for an integer, \<^verbatim>\<open>True\<close> and \<^verbatim>\<open>False\<close> being
  the integers one and zero.
\<close>

fun is_numeric :: "pyval \<Rightarrow> bool" where
  "is_numeric (VBool b) = True"
| "is_numeric (VInt n) = True"
| "is_numeric (VFloat f) = True"
| "is_numeric v = False"

fun builtin_float :: "pylib \<Rightarrow> pyval \<Rightarrow> pyexn + pyfloat" where
  "builtin_float L (VBool b) = float_of_int L (if b then 1 else 0)"
| "builtin_float L (VInt n) = float_of_int L n"
| "builtin_float L (VFloat f) = Inr f"
| "builtin_float L (VStr s) = float_of_str L s"
| "builtin_float L v = Inl TypeError"

section \<open>Price normalisation\<close>

text \<open>
  \<^verbatim>\<open>normalize_price(value)\<close>. The result is \<open>Inl e\<close> when the call raises \<open>e\<close>, and
  \<open>Inr r\<close> when it returns \<open>r\<close> (\<open>None\<close> for Python's \<^verbatim>\<open>None\<close>). The argument \<open>d\<close> is
  the number of nested calls the recursion limit still allows: the recursive call on
  \<^verbatim>\<open>parsed[0]\<close> raises \<^verbatim>\<open>RecursionError\<close> when none is left. Every exception raised
  inside the \<^verbatim>\<open>try\<close> blocks is an \<^verbatim>\<open>Exception\<close> and is caught there.
\<close>

fun normalize_price :: "pylib \<Rightarrow> nat \<Rightarrow> pyval \<Rightarrow> pyexn + pyfloat option" where
  "normalize_price L d VNone = Inr None"
| "normalize_price L d (VBool b) =
     (case float_of_int L (if b then 1 else 0) of Inl e \<Rightarrow> Inl e | Inr f \<Rightarrow> Inr (Some f))"
| "normalize_price L d (VInt n) =
     (case float_of_int L n of Inl e \<Rightarrow> Inl e | Inr f \<Rightarrow> Inr (Some f))"
| "normalize_price L d (VFloat f) = Inr (Some f)"
| "normalize_price L d (VStr v) =
     (let s = strip v;
          s = (if startswith s (ustr ''('') \<and> endswith s (ustr '')'') then strip (slice_1_m1 s) else s);
          s = strip (remove_char 44 (remove_char pound_sign s));
          returned =
            (if startswith s (ustr ''['') \<and> endswith s (ustr '']'') then
               (case json_loads L s of
                  Inl e \<Rightarrow> None
                | Inr parsed \<Rightarrow>
                    if truthy parsed then
                      (case subscript0 parsed of
                         Inl e \<Rightarrow> None
                       | Inr x \<Rightarrow>
                           (case d of
                              0 \<Rightarrow> None
                            | Suc d' \<Rightarrow>
                                (case normalize_price L d' x of
                                   Inl e \<Rightarrow> None
                                 | Inr r \<Rightarrow> Some r)))
                    else None)
             else None)
      in case returned of
           Some r \<Rightarrow> Inr r
         | None \<Rightarrow> (case float_of_str L s of Inl e \<Rightarrow> Inr None | Inr f \<Rightarrow> Inr (Some f)))"
| "normalize_price L d (VList xs) = Inr None"
| "normalize_price L d (VTuple xs) = Inr None"
| "normalize_price L d (VDict kvs) = Inr None"

section \<open>The analysis functions\<close>

text \<open>
  A \<^verbatim>\<open>for it in items\<close> loop is a recursion over the list of records that carries the
  loop's variable (\<open>count\<close> or \<open>prices\<close>) and stops at the first exception. The
  body of each loop is a function of the record.
\<close>

text \<open>
  Lines 89 to 94 of \<^verbatim>\<open>count_books_in_category\<close>: whether the record is counted, where
  \<open>cat\<close> is the stripped and lowered target.
\<close>

definition count_books_in_category_match :: "pylib \<Rightarrow> pystr \<Rightarrow> pydict \<Rightarrow> pyexn + bool" where
  "count_books_in_category_match L cat it =
     (let c = py_or (py_or (dict_get it (ustr ''category'')) (dict_get it (ustr ''Category'')))
                (dict_get it (ustr ''category_name''))
      in if c = VNone then Inr False
         else case (if is_list_or_tuple c then subscript0 c else Inr c) of
                Inl e \<Rightarrow> Inl e
              | Inr c \<Rightarrow> Inr (case c of VStr s \<Rightarrow> str_lower L (strip s) = cat | _ \<Rightarrow> False))"

fun count_books_in_category_loop :: "pylib \<Rightarrow> pystr \<Rightarrow> pydict list \<Rightarrow> nat \<Rightarrow> pyexn + nat" where
  "count_books_in_category_loop L cat [] count = Inr count"
| "count_books_in_category_loop L cat (it # items) count =
     (case count_books_in_category_match L cat it of
        Inl e \<Rightarrow> Inl e
      | Inr m \<Rightarrow> count_books_in_category_loop L cat items (if m then count + 1 else count))"

definition count_books_in_category :: "pylib \<Rightarrow> pydict list \<Rightarrow> pystr \<Rightarrow> pyexn + nat" where
  "count_books_in_category L items category =
     (let cat = str_lower L (strip category)
      in count_books_in_category_loop L cat items 0)"

text \<open>\<^verbatim>\<open>average_price_all\<close>; \<open>mean_of_prices\<close> is its last three lines.\<close>

definition mean_of_prices :: "pylib \<Rightarrow> pyfloat list \<Rightarrow> pyfloat option" where
  "mean_of_prices L prices =
     (if prices = [] then None
      else Some (float_div_int L (float_sum L prices) (length prices)))"

fun average_price_all_loop :: "pylib \<Rightarrow> pystr \<Rightarrow> pydict list \<Rightarrow> pyfloat list \<Rightarrow> pyexn + pyfloat list" where
  "average_price_all_loop L price_field [] prices = Inr prices"
| "average_price_all_loop L price_field (it # items) prices =
     (case normalize_price L (recursion_budget L) (dict_get it price_field) of
        Inl e \<Rightarrow> Inl e
      | Inr None \<Rightarrow> average_price_all_loop L price_field items prices
      | Inr (Some p) \<Rightarrow> average_price_all_loop L price_field items (prices @ [p]))"

definition average_price_all :: "pylib \<Rightarrow> pydict list \<Rightarrow> pystr \<Rightarrow> pyexn + pyfloat option" where
  "average_price_all L items price_field =
     (case average_price_all_loop L price_field items [] of
        Inl e \<Rightarrow> Inl e
      | Inr prices \<Rightarrow> Inr (mean_of_prices L prices))"

text \<open>
  Lines 114 to 119 of \<^verbatim>\<open>average_price_in_category\<close>: whether the record's price is
  looked at.
\<close>

definition average_price_in_category_match :: "pylib \<Rightarrow> pystr \<Rightarrow> pydict \<Rightarrow> pyexn + bool" where
  "average_price_in_category_match L cat it =
     (let c = py_or (dict_get it (ustr ''category'')) (dict_get it (ustr ''Category''))
      in if c = VNone then Inr False
         else case (if is_list_or_tuple c then subscript0 c else Inr c) of
                Inl e \<Rightarrow> Inl e
              | Inr c \<Rightarrow> Inr (case c of VStr s \<Rightarrow> str_lower L (strip s) = cat | _ \<Rightarrow> False))"

text \<open>The body of its loop: the price the record appends to \<open>prices\<close>, if any.\<close>

definition average_price_in_category_step :: "pylib \<Rightarrow> pystr \<Rightarrow> pystr \<Rightarrow> pydict \<Rightarrow> pyexn + pyfloat option" where
  "average_price_in_category_step L cat price_field it =
     (case average_price_in_category_match L cat it of
        Inl e \<Rightarrow> Inl e
      | Inr m \<Rightarrow>
          if m then normalize_price L (recursion_budget L) (dict_get it price_field)
          else Inr None)"

fun average_price_in_category_loop ::
  "pylib \<Rightarrow> pystr \<Rightarrow> pystr \<Rightarrow> pydict list \<Rightarrow> pyfloat list \<Rightarrow> pyexn + pyfloat list" where
  "average_price_in_category_loop L cat price_field [] prices = Inr prices"
| "average_price_in_category_loop L cat price_field (it # items) prices =
     (case average_price_in_category_step L cat price_field it of
        Inl e \<Rightarrow> Inl e
      | Inr None \<Rightarrow> average_price_in_category_loop L cat price_field items prices
      | Inr (Some p) \<Rightarrow> average_price_in_category_loop L cat price_field items (prices @ [p]))"

definition average_price_in_category ::
  "pylib \<Rightarrow> pydict list \<Rightarrow> pystr \<Rightarrow> pystr \<Rightarrow> pyexn + pyfloat option" where
  "average_price_in_category L items category price_field =
     (let cat = str_lower L (strip category)
      in case average_price_in_category_loop L cat price_field items [] of
           Inl e \<Rightarrow> Inl e
         | Inr prices \<Rightarrow> Inr (mean_of_prices L prices))"

text \<open>\<^verbatim>\<open>count_books_in_price_range\<close>.\<close>

fun count_books_in_price_range_loop ::
  "pylib \<Rightarrow> pyfloat \<Rightarrow> pyfloat \<Rightarrow> pystr \<Rightarrow> pydict list \<Rightarrow> nat \<Rightarrow> pyexn + nat" where
  "count_books_in_price_range_loop L min_price max_price price_field [] count = Inr count"
| "count_books_in_price_range_loop L min_price max_price price_field (it # items) count =
     (case normalize_price L (recursion_budget L) (dict_get it price_field) of
        Inl e \<Rightarrow> Inl e
      | Inr None \<Rightarrow> count_books_in_price_range_loop L min_price max_price price_field items count
      | Inr (Some p) \<Rightarrow>
          count_books_in_price_range_loop L min_price max_price price_field items
            (if float_le min_price p \<and> float_le p max_price then count + 1 else count))"

definition count_books_in_price_range ::
  "pylib \<Rightarrow> pydict list \<Rightarrow> pyfloat \<Rightarrow> pyfloat \<Rightarrow> pystr \<Rightarrow> pyexn + nat" where
  "count_books_in_price_range L items min_price max_price price_field =
     (let (min_price, max_price) =
            (if float_gt min_price max_price then (max_price, min_price)
             else (min_price, max_price))
      in count_books_in_price_range_loop L min_price max_price price_field items 0)"

section \<open>What the loops compute\<close>

text \<open>
  The outcomes of a loop body over the records, in order: the first exception, or the
  list of all results.
\<close>

fun collect_results :: "('e + 'a) list \<Rightarrow> 'e + 'a list" where
  "collect_results [] = Inr []"
| "collect_results (Inl e # rs) = Inl e"
| "collect_results (Inr x # rs) =
     (case collect_results rs of Inl e \<Rightarrow> Inl e | Inr xs \<Rightarrow> Inr (x # xs))"

text \<open>The prices among the results of normalisation, in order.\<close>

fun valid_prices :: "pyfloat option list \<Rightarrow> pyfloat list" where
  "valid_prices [] = []"
| "valid_prices (None # ps) = valid_prices ps"
| "valid_prices (Some p # ps) = p # valid_prices ps"

text \<open>The closed interval of the price range count.\<close>

definition in_price_range :: "pyfloat \<Rightarrow> pyfloat \<Rightarrow> pyfloat option \<Rightarrow> bool" where
  "in_price_range lo hi p = (case p of None \<Rightarrow> False | Some x \<Rightarrow> float_le lo x \<and> float_le x hi)"

section \<open>Concrete inputs\<close>

text \<open>An integer beyond the range of the floats, as a JSON file may hold one.\<close>

definition huge_int :: int where
  "huge_int = 10 ^ 400"

text \<open>
  The records of the end-to-end example: two priced books and one with an unreadable
  price, all of the category \<^verbatim>\<open>Travel\<close>.
\<close>

definition example_items :: "pydict list" where
  "example_items =
     [[(ustr ''price'', VStr (pound_sign # ustr ''10.00'')), (ustr ''category'', VStr (ustr ''Travel''))],
      [(ustr ''price'', VStr (pound_sign # ustr ''30.00'')), (ustr ''category'', VStr (ustr ''Travel''))],
      [(ustr ''price'', VStr (ustr ''bad'')), (ustr ''category'', VStr (ustr ''Travel''))]]"

section \<open>Properties of the loops\<close>

lemma count_books_in_price_range_loop_eq:
  "count_books_in_price_range_loop L lo hi pf items n =
     (case collect_results (map (\<lambda>it. normalize_price L (recursion_budget L) (dict_get it pf)) items) of
        Inl e \<Rightarrow> Inl e
      | Inr ps \<Rightarrow> Inr (n + length (filter (in_price_range lo hi) ps)))"
  by (induction items arbitrary: n)
     (auto simp: in_price_range_def split: sum.splits option.splits)

lemma average_price_all_loop_eq:
  "average_price_all_loop L pf items prices =
     (case collect_results (map (\<lambda>it. normalize_price L (recursion_budget L) (dict_get it pf)) items) of
        Inl e \<Rightarrow> Inl e
      | Inr ps \<Rightarrow> Inr (prices @ valid_prices ps))"
  by (induction items arbitrary: prices)
     (auto split: sum.splits option.splits)

lemma average_price_in_category_loop_eq:
  "average_price_in_category_loop L cat pf items prices =
     (case collect_results (map (average_price_in_category_step L cat pf) items) of
        Inl e \<Rightarrow> Inl e
      | Inr ps \<Rightarrow> Inr (prices @ valid_prices ps))"
  by (induction items arbitrary: prices)
     (auto split: sum.splits option.splits)

text \<open>
  Swapping the bounds when the first exceeds the second gives the same interval for both
  orders of the arguments: with a NaN among the bounds nothing lies inside, and two bounds
  of which neither exceeds the other compare equal.
\<close>

lemma float_interval_swap:
  "(float_le (if float_gt a b then b else a) x \<and> float_le x (if float_gt a b then a else b)) =
   (float_le (if float_gt b a then a else b) x \<and> float_le x (if float_gt b a then b else a))"
  by (cases a; cases b; cases x; simp add: float_le_def float_gt_def; linarith)

lemma in_price_range_swap:
  "in_price_range (if float_gt a b then b else a) (if float_gt a b then a else b) =
   in_price_range (if float_gt b a then a else b) (if float_gt b a then b else a)"
proof
  fix p
  show "in_price_range (if float_gt a b then b else a) (if float_gt a b then a else b) p =
        in_price_range (if float_gt b a then a else b) (if float_gt b a then b else a) p"
  proof (cases p)
    case None
    then show ?thesis by (simp add: in_price_range_def)
  next
    case (Some x)
    then show ?thesis
      using float_interval_swap [of a b x] by (simp add: in_price_range_def)
  qed
qed

lemma count_books_in_price_range_eq:
  "count_books_in_price_range L items a b pf =
     (case collect_results (map (\<lambda>it. normalize_price L (recursion_budget L) (dict_get it pf)) items) of
        Inl e \<Rightarrow> Inl e
      | Inr ps \<Rightarrow>
          Inr (length (filter (in_price_range (if float_gt a b then b else a)
                                               (if float_gt a b then a else b)) ps)))"
  by (simp add: count_books_in_price_range_def count_books_in_price_range_loop_eq
      split: sum.splits)

section \<open>Evaluation on concrete inputs\<close>

text \<open>The bit length of a numeral, and the integer part of a quotient of numerals.\<close>

lemma bitlen_num_One: "bitlen 1 = 1"
  by (simp add: bitlen_alt_def)

lemma bitlen_num_Bit0: "bitlen (numeral (Num.Bit0 n)) = bitlen (numeral n) + 1"
  by (subst compute_bitlen) simp

lemma bitlen_num_Bit1: "bitlen (numeral (Num.Bit1 n)) = bitlen (numeral n) + 1"
  by (subst compute_bitlen) simp

lemma floor_rat_numeral: "\<lfloor>numeral a / numeral b :: rat\<rfloor> = numeral a div numeral b"
  by (metis floor_divide_of_int_eq of_int_numeral)

lemma ceiling_rat_numeral: "\<lceil>numeral a / numeral b :: rat\<rceil> = - (- numeral a div numeral b)"
  using ceiling_divide_eq_div [of "numeral a" "numeral b", where ?'a = rat] by simp

lemmas double_eval = to_double_def floor_log2_def bitlen_num_One bitlen_num_Bit0 bitlen_num_Bit1
  floor_rat_numeral ceiling_rat_numeral pow_int_def round_half_even_def Let_def

lemmas string_eval = ustr_def strip_def py_isspace_def startswith_def endswith_def
  slice_1_m1_def remove_char_def pound_sign_def

lemmas float_of_str_eval = py_float_of_str_def float_strip_def float_isspace_def py_isspace_def
  remove_char_def ustr_def ascii_lower_def parse_decimal_def parse_exponent_def is_digit_def
  digits_value_def pow_int_def

lemmas json_eval = py_json_loads_def lex_start_def is_word_char_def is_digit_def
  scalar_of_word_def parse_json_number_def emit_def json_step_def open_value_def take_key_def
  close_container_def ustr_def

lemmas category_eval = count_books_in_category_def count_books_in_category_match_def
  average_price_in_category_def average_price_in_category_match_def
  average_price_in_category_step_def average_price_all_def mean_of_prices_def
  count_books_in_price_range_def dict_get_def py_or_def

lemma stdlib_sel:
  "str_lower stdlib = ascii_lower"
  "float_of_str stdlib = py_float_of_str"
  "float_of_int stdlib = py_float_of_int"
  "json_loads stdlib = py_json_loads"
  "float_sum stdlib = py_float_sum"
  "float_div_int stdlib = py_float_div_int"
  "recursion_budget stdlib = 1000"
  by (simp_all add: stdlib_def)

lemma ustr_eq_iff: "ustr a = ustr b \<longleftrightarrow> a = b"
  unfolding ustr_def by (rule inj_map_eq_map [OF inj_of_char])

lemma ustr_Nil_iff: "ustr a = [] \<longleftrightarrow> a = []"
  by (simp add: ustr_def)

lemma target_Travel: "ascii_lower (strip (ustr ''Travel'')) = ustr ''travel''"
  by (simp add: ustr_def strip_def py_isspace_def ascii_lower_def)

lemma target_TRAVEL_spaced: "ascii_lower (strip (ustr '' TRAVEL '')) = ustr ''travel''"
  by (simp add: ustr_def strip_def py_isspace_def ascii_lower_def)

text \<open>The conversions on the inputs used below.\<close>

lemma float_of_int_huge: "py_float_of_int huge_int = Inl OverflowError"
  by (simp add: huge_int_def py_float_of_int_def double_eval)

lemma float_of_int_10: "py_float_of_int 10 = Inr (Fin 10)"
  by (simp add: py_float_of_int_def double_eval)

lemma to_double_10: "to_double (1000 / 100) = Fin 10"
  by (simp add: double_eval)

lemma to_double_30: "to_double (3000 / 100) = Fin 30"
  by (simp add: double_eval)

lemma to_double_40: "to_double 40 = Fin 40"
  by (simp add: double_eval)

lemma to_double_2: "to_double 2 = Fin 2"
  by (simp add: double_eval)

lemma to_double_20: "to_double 20 = Fin 20"
  by (simp add: double_eval)

lemma float_of_str_5177: "py_float_of_str (ustr ''51.77'') = Inr (to_double (5177 / 100))"
  by (simp add: float_of_str_eval)

lemma float_of_str_123456: "py_float_of_str (ustr ''1234.56'') = Inr (to_double (123456 / 100))"
  by (simp add: float_of_str_eval)

lemma float_of_str_abc: "py_float_of_str (ustr ''abc'') = Inl ValueError"
  by (simp add: float_of_str_eval)

lemma float_of_str_bad: "py_float_of_str (ustr ''bad'') = Inl ValueError"
  by (simp add: float_of_str_eval)

lemma float_of_str_1000: "py_float_of_str (ustr ''10.00'') = Inr (Fin 10)"
  using to_double_10 by (simp add: float_of_str_eval)

lemma float_of_str_3000: "py_float_of_str (ustr ''30.00'') = Inr (Fin 30)"
  using to_double_30 by (simp add: float_of_str_eval)

text \<open>
  The text \<^verbatim>\<open>['51.77']\<close>, which is what is left of \<^verbatim>\<open>['\<pounds>51.77']\<close> once the pound sign is
  removed, is not JSON (its string is in single quotes) and not a float.
\<close>

lemma float_of_str_bracketed:
  "py_float_of_str (ustr ''['' @ [39] @ ustr ''51.77'' @ [39] @ ustr '']'') = Inl ValueError"
  by (simp add: float_of_str_eval)

lemma json_loads_bracketed:
  "py_json_loads (ustr ''['' @ [39] @ ustr ''51.77'' @ [39] @ ustr '']'') = Inl JSONDecodeError"
  by (simp add: json_eval)

lemma normalize_price_pound:
  "normalize_price stdlib d (VStr (pound_sign # ustr ''51.77'')) = Inr (Some (to_double (5177 / 100)))"
  using float_of_str_5177 by (simp add: string_eval stdlib_sel)

lemma normalize_price_parenthesised:
  "normalize_price stdlib d (VStr (ustr ''('' @ pound_sign # ustr ''51.77)''))
     = Inr (Some (to_double (5177 / 100)))"
  using float_of_str_5177 by (simp add: string_eval stdlib_sel)

lemma normalize_price_thousands:
  "normalize_price stdlib d (VStr (ustr ''1,234.56'')) = Inr (Some (to_double (123456 / 100)))"
  using float_of_str_123456 by (simp add: string_eval stdlib_sel)

lemma normalize_price_abc: "normalize_price stdlib d (VStr (ustr ''abc'')) = Inr None"
  using float_of_str_abc by (simp add: string_eval stdlib_sel)

lemma normalize_price_bracketed:
  "normalize_price stdlib d
     (VStr (ustr ''['' @ [39, pound_sign] @ ustr ''51.77'' @ [39] @ ustr '']'')) = Inr None"
  using float_of_str_bracketed json_loads_bracketed by (simp add: string_eval stdlib_sel)

lemma example_prices:
  "normalize_price stdlib d (VStr (pound_sign # ustr ''10.00'')) = Inr (Some (Fin 10))"
  "normalize_price stdlib d (VStr (pound_sign # ustr ''30.00'')) = Inr (Some (Fin 30))"
  "normalize_price stdlib d (VStr (ustr ''bad'')) = Inr None"
  using float_of_str_1000 float_of_str_3000 float_of_str_bad
  by (simp_all add: string_eval stdlib_sel)

lemma example_mean: "mean_of_prices stdlib [Fin 10, Fin 30] = Some (Fin 20)"
  using to_double_10 to_double_40 to_double_2 to_double_20
  by (simp add: mean_of_prices_def stdlib_sel py_float_sum_def py_float_div_int_def)

text \<open>The end-to-end example: the average of the category, its count, and a range count.\<close>

lemma example_average_price_in_category:
  "average_price_in_category stdlib example_items (ustr ''Travel'') (ustr ''price'')
     = Inr (Some (Fin 20))"
  using example_mean
  by (simp add: average_price_in_category_def average_price_in_category_match_def
        average_price_in_category_step_def dict_get_def py_or_def
        example_items_def example_prices stdlib_sel target_Travel ustr_eq_iff ustr_Nil_iff
      del: normalize_price.simps)

lemma example_count_books_in_category:
  "count_books_in_category stdlib example_items (ustr ''Travel'') = Inr 3"
  by (simp add: count_books_in_category_def count_books_in_category_match_def dict_get_def
        py_or_def example_items_def stdlib_sel target_Travel ustr_eq_iff ustr_Nil_iff)

lemma example_count_books_in_price_range:
  "count_books_in_price_range stdlib example_items (Fin 5) (Fin 15) (ustr ''price'') = Inr 1"
  by (simp add: count_books_in_price_range_def dict_get_def example_items_def example_prices
        stdlib_sel ustr_eq_iff ustr_Nil_iff float_gt_def float_le_def
      del: normalize_price.simps)

text \<open>
  The only exception that leaves \<^verbatim>\<open>normalize_price\<close> is the one of \<^verbatim>\<open>float(value)\<close> on a
  number: everything raised while a string is handled is caught.
\<close>

lemma normalize_price_raises_only_on_numbers:
  "normalize_price L d v = Inl e \<Longrightarrow> is_numeric v \<and> builtin_float L v = Inl e"
  by (cases v) (auto simp: Let_def split: sum.splits if_splits option.splits nat.splits)

text \<open>
  A false value under a field name before the last one is passed over by the chain of
  \<^verbatim>\<open>or\<close>, as an absent field is.
\<close>

lemma falsy_category_under_earlier_name:
  "\<not> truthy a \<Longrightarrow> py_or (py_or a b) c = py_or b c"
  "\<not> truthy b \<Longrightarrow> py_or (py_or a b) c = py_or a c"
  by (simp_all add: py_or_def)

section \<open>Theorems\<close>

text \<open>
  C5. On an input that is already a number (an integer, a boolean, a float),
  \<^verbatim>\<open>normalize_price\<close> does exactly what \<^verbatim>\<open>float\<close> does on it: it returns the float that
  \<^verbatim>\<open>float(x)\<close> returns, and where \<^verbatim>\<open>float(x)\<close> raises (an integer beyond the range of the
  floats) it raises the same exception.
\<close>

theorem normalize_price_numeric:
  "is_numeric x \<Longrightarrow>
   normalize_price L d x = (case builtin_float L x of Inl e \<Rightarrow> Inl e | Inr f \<Rightarrow> Inr (Some f))"
  by (cases x) simp_all

text \<open>
  C6. The price range count is the same for both orders of the bounds. The bounds are
  swapped when the first exceeds the second, and a record is counted exactly when its
  price normalises to a float inside the closed interval of the bounds; when a
  normalisation raises, the count raises.
\<close>

theorem count_books_in_price_range_symmetric:
  "count_books_in_price_range L items a b pf = count_books_in_price_range L items b a pf
   \<and> count_books_in_price_range L items a b pf =
       (case collect_results
               (map (\<lambda>it. normalize_price L (recursion_budget L) (dict_get it pf)) items) of
          Inl e \<Rightarrow> Inl e
        | Inr ps \<Rightarrow>
            Inr (length (filter (in_price_range (if float_gt a b then b else a)
                                                 (if float_gt a b then a else b)) ps)))"
proof
  show "count_books_in_price_range L items a b pf = count_books_in_price_range L items b a pf"
    unfolding count_books_in_price_range_eq in_price_range_swap [of a b] ..
  show "count_books_in_price_range L items a b pf =
       (case collect_results
               (map (\<lambda>it. normalize_price L (recursion_budget L) (dict_get it pf)) items) of
          Inl e \<Rightarrow> Inl e
        | Inr ps \<Rightarrow>
            Inr (length (filter (in_price_range (if float_gt a b then b else a)
                                                 (if float_gt a b then a else b)) ps)))"
    by (rule count_books_in_price_range_eq)
qed

text \<open>
  C7. Both averages return \<^verbatim>\<open>None\<close> exactly when no price was collected (never a zero
  or a NaN then), and otherwise the mean \<^verbatim>\<open>sum(prices) / len(prices)\<close> of the
  collected prices, which are the floats that the normalisation of the records (for the
  category variant: of the records of the category) returned, in order. When a
  normalisation or the category test raises, the average raises.
\<close>

theorem average_price_none_iff_no_prices:
  "average_price_all L items pf =
     (case collect_results
             (map (\<lambda>it. normalize_price L (recursion_budget L) (dict_get it pf)) items) of
        Inl e \<Rightarrow> Inl e
      | Inr ps \<Rightarrow>
          Inr (if valid_prices ps = [] then None
               else Some (float_div_int L (float_sum L (valid_prices ps))
                            (length (valid_prices ps)))))
   \<and> average_price_in_category L items category pf =
     (case collect_results
             (map (average_price_in_category_step L (str_lower L (strip category)) pf) items) of
        Inl e \<Rightarrow> Inl e
      | Inr ps \<Rightarrow>
          Inr (if valid_prices ps = [] then None
               else Some (float_div_int L (float_sum L (valid_prices ps))
                            (length (valid_prices ps)))))"
  by (simp add: average_price_all_def average_price_in_category_def
        average_price_all_loop_eq average_price_in_category_loop_eq mean_of_prices_def
      split: sum.splits)

text \<open>
  C8. Two targets that are equal after stripping the surrounding white space and
  lowering the case give the same count on every sequence of records.
\<close>

theorem count_books_in_category_target_insensitive:
  "str_lower L (strip a) = str_lower L (strip b) \<Longrightarrow>
   count_books_in_category L items a = count_books_in_category L items b"
  by (simp add: count_books_in_category_def)

text \<open>
  C9. A float that \<^verbatim>\<open>normalize_price\<close> has returned is returned unchanged when it is
  normalised again.
\<close>

theorem normalize_price_idempotent:
  "normalize_price L d v = Inr (Some f) \<Longrightarrow> normalize_price L d' (VFloat f) = Inr (Some f)"
  by simp

theorem normalize_price_idempotent_witness:
  "normalize_price stdlib 1000 (VStr (pound_sign # ustr ''51.77''))
     = Inr (Some (to_double (5177 / 100)))
   \<and> normalize_price stdlib 0 (VFloat (to_double (5177 / 100)))
     = Inr (Some (to_double (5177 / 100)))"
proof -
  have h: "normalize_price stdlib 1000 (VStr (pound_sign # ustr ''51.77''))
             = Inr (Some (to_double (5177 / 100)))"
    by (rule normalize_price_pound)
  show ?thesis
    using h normalize_price_idempotent [OF h, of 0] by (simp del: normalize_price.simps)
qed

theorem normalize_price_numeric_witness:
  "is_numeric (VInt 10) \<and> normalize_price stdlib 0 (VInt 10) = Inr (Some (Fin 10))"
proof -
  have n: "is_numeric (VInt 10)"
    by simp
  have f: "builtin_float stdlib (VInt 10) = Inr (Fin 10)"
    by (simp add: stdlib_sel float_of_int_10)
  show ?thesis
    using n f normalize_price_numeric [OF n, of stdlib 0] by (simp del: normalize_price.simps)
qed

theorem count_books_in_price_range_symmetric_witness:
  "count_books_in_price_range stdlib example_items (Fin 5) (Fin 15) (ustr ''price'') = Inr 1
   \<and> count_books_in_price_range stdlib example_items (Fin 15) (Fin 5) (ustr ''price'') = Inr 1"
  using example_count_books_in_price_range
    count_books_in_price_range_symmetric
      [of stdlib example_items "Fin 5" "Fin 15" "ustr ''price''", THEN conjunct1]
  by simp

theorem average_price_none_iff_no_prices_witness:
  "average_price_all stdlib [] (ustr ''price'') = Inr None
   \<and> average_price_in_category stdlib example_items (ustr ''Travel'') (ustr ''price'')
       = Inr (Some (Fin 20))"
proof -
  have steps:
    "map (average_price_in_category_step stdlib (ustr ''travel'') (ustr ''price'')) example_items
       = [Inr (Some (Fin 10)), Inr (Some (Fin 30)), Inr None]"
    by (simp add: average_price_in_category_match_def average_price_in_category_step_def
          dict_get_def py_or_def example_items_def example_prices stdlib_sel
          target_Travel ustr_eq_iff ustr_Nil_iff
        del: normalize_price.simps)
  have mean: "float_div_int stdlib (float_sum stdlib [Fin 10, Fin 30]) (Suc (Suc 0)) = Fin 20"
    using example_mean by (simp add: mean_of_prices_def)
  show ?thesis
    using average_price_none_iff_no_prices [of stdlib "[]" "ustr ''price''" "ustr ''Travel''"]
      average_price_none_iff_no_prices [of stdlib example_items "ustr ''price''" "ustr ''Travel''"]
      steps mean
    by (simp add: stdlib_sel target_Travel)
qed

theorem count_books_in_category_target_insensitive_witness:
  "str_lower stdlib (strip (ustr ''Travel'')) = str_lower stdlib (strip (ustr '' TRAVEL ''))
   \<and> count_books_in_category stdlib example_items (ustr ''Travel'') = Inr 3
   \<and> count_books_in_category stdlib example_items (ustr '' TRAVEL '') = Inr 3"
proof -
  have h: "str_lower stdlib (strip (ustr ''Travel''))
             = str_lower stdlib (strip (ustr '' TRAVEL ''))"
    by (simp add: stdlib_sel target_Travel target_TRAVEL_spaced)
  show ?thesis
    using h example_count_books_in_category
      count_books_in_category_target_insensitive [OF h, of example_items]
    by simp
qed

text \<open>
  C1. With the reference library, \<^verbatim>\<open>normalize_price\<close> maps \<^verbatim>\<open>\<pounds>51.77\<close> and \<^verbatim>\<open>(\<pounds>51.77)\<close> to
  the float 51.77, \<^verbatim>\<open>1,234.56\<close> to the float 1234.56, and \<^verbatim>\<open>abc\<close> and \<^verbatim>\<open>None\<close> to
  \<^verbatim>\<open>None\<close>. The text \<^verbatim>\<open>['\<pounds>51.77']\<close> however is mapped to \<^verbatim>\<open>None\<close>, not to 51.77: what is
  left of it after the pound sign is removed is handed to \<^verbatim>\<open>json.loads\<close>, which rejects
  a string in single quotes.
\<close>

theorem normalize_price_examples:
  "normalize_price stdlib d (VStr (pound_sign # ustr ''51.77''))
     = Inr (Some (to_double (5177 / 100)))
   \<and> normalize_price stdlib d (VStr (ustr ''('' @ pound_sign # ustr ''51.77)''))
     = Inr (Some (to_double (5177 / 100)))
   \<and> normalize_price stdlib d (VStr (ustr ''1,234.56''))
     = Inr (Some (to_double (123456 / 100)))
   \<and> normalize_price stdlib d (VStr (ustr ''abc'')) = Inr None
   \<and> normalize_price stdlib d VNone = Inr None
   \<and> normalize_price stdlib d
       (VStr (ustr ''['' @ [39, pound_sign] @ ustr ''51.77'' @ [39] @ ustr '']'')) = Inr None"
  using normalize_price_pound [of d] normalize_price_parenthesised [of d]
    normalize_price_thousands [of d] normalize_price_abc [of d] normalize_price_bracketed [of d]
  by (simp del: normalize_price.simps(5))

text \<open>
  C2. The two functions do not select by the same rule: \<^verbatim>\<open>count_books_in_category\<close> reads
  the category from \<^verbatim>\<open>category\<close>, \<^verbatim>\<open>Category\<close> and \<^verbatim>\<open>category_name\<close>, and
  \<^verbatim>\<open>average_price_in_category\<close> from the first two only. A record that has its category
  under \<^verbatim>\<open>category_name\<close> is counted by the first and ignored by the second.
\<close>

theorem category_rules_differ:
  "count_books_in_category stdlib
     [[(ustr ''category_name'', VStr (ustr ''Travel'')), (ustr ''price'', VFloat (Fin 10))]]
     (ustr ''Travel'') = Inr 1
   \<and> average_price_in_category stdlib
     [[(ustr ''category_name'', VStr (ustr ''Travel'')), (ustr ''price'', VFloat (Fin 10))]]
     (ustr ''Travel'') (ustr ''price'') = Inr None
   \<and> count_books_in_category_match stdlib (ustr ''travel'')
       [(ustr ''category_name'', VStr (ustr ''Travel'')), (ustr ''price'', VFloat (Fin 10))]
     = Inr True
   \<and> average_price_in_category_match stdlib (ustr ''travel'')
       [(ustr ''category_name'', VStr (ustr ''Travel'')), (ustr ''price'', VFloat (Fin 10))]
     = Inr False"
  by (simp add: category_eval string_eval stdlib_sel ascii_lower_def)

text \<open>
  C3. \<^verbatim>\<open>normalize_price\<close> raises on an integer that is too large for a float: the
  conversion \<^verbatim>\<open>float(value)\<close> of a number is not inside a \<^verbatim>\<open>try\<close>, and its
  \<^verbatim>\<open>OverflowError\<close> leaves the function.
\<close>

theorem normalize_price_raises_on_huge_int:
  "normalize_price stdlib d (VInt huge_int) = Inl OverflowError"
  by (simp add: stdlib_sel float_of_int_huge)

text \<open>
  C4. The analysis functions raise on some records: an empty list under the last field
  name that is tried for the category is subscripted and raises \<^verbatim>\<open>IndexError\<close>, and a
  price that is an integer too large for a float raises \<^verbatim>\<open>OverflowError\<close>.
\<close>

theorem analysis_functions_raise:
  "count_books_in_category stdlib [[(ustr ''category_name'', VList [])]] (ustr ''Travel'')
     = Inl IndexError
   \<and> average_price_in_category stdlib [[(ustr ''Category'', VList [])]] (ustr ''Travel'')
       (ustr ''price'') = Inl IndexError
   \<and> average_price_all stdlib [[(ustr ''price'', VInt huge_int)]] (ustr ''price'')
     = Inl OverflowError
   \<and> count_books_in_price_range stdlib [[(ustr ''price'', VInt huge_int)]] (Fin 10) (Fin 20)
       (ustr ''price'') = Inl OverflowError"
  by (simp add: category_eval string_eval stdlib_sel ascii_lower_def float_of_int_huge
        float_gt_def)

text \<open>
  C10. A false value under the last field name that is tried is not treated as an absent
  field: it is what the chain of \<^verbatim>\<open>or\<close> returns. An empty list there is subscripted and
  raises \<^verbatim>\<open>IndexError\<close>, and an empty string there matches a target that is empty once
  stripped, where a record without any category field is skipped.
\<close>

theorem falsy_category_under_last_name:
  "count_books_in_category_match L cat [(ustr ''category_name'', VList [])] = Inl IndexError
   \<and> average_price_in_category_match L cat [(ustr ''Category'', VList [])] = Inl IndexError
   \<and> count_books_in_category stdlib [[(ustr ''category_name'', VStr [])]] (ustr '' '') = Inr 1
   \<and> count_books_in_category stdlib [[]] (ustr '' '') = Inr 0"
  by (simp add: category_eval string_eval stdlib_sel ascii_lower_def)

end
